theory Spec2Isabelle
  imports
    Main
    "HOL-Library.Word"
    "HOL-Library.Char_ord"
    "HOL-Library.List_Lexorder"
begin

unbundle bit_operations_syntax

section \<open>Control plane server: errors, messages, events\<close>

text \<open>
  The server header \<^verbatim>\<open>src/internal/control_plane/server.hpp\<close> defines three function
  bodies: \<^verbatim>\<open>check_unique_repeated_field\<close>, \<^verbatim>\<open>unpack_request\<close> and
  \<^verbatim>\<open>unary_response\<close>.  They are embedded here as written.  The types they use
  (\<^verbatim>\<open>Error\<close>/\<^verbatim>\<open>Expected\<close> of \<^verbatim>\<open>internal/expected.hpp\<close>, the protobuf messages of
  \<^verbatim>\<open>architect.proto\<close>, the stream of \<^verbatim>\<open>internal/grpc\<close>) are declared elsewhere and
  modelled by the small datatypes below.
\<close>

type_synonym tag_t = "64 word"
type_synonym instance_id_t = "64 word"
type_synonym stream_id_t = "64 word"

text \<open>
  Modelled from the spec: \<^verbatim>\<open>protos::ErrorCode\<close> (architect.proto is not among the
  sources).  Section 6 of the specification lists the codes.
\<close>

datatype ErrorCode =
  InstanceError | InvalidRole | DuplicateUcxAddress | TagExhausted | ServiceMismatch

text \<open>
  Modelled from the spec: the error held by a failed \<^verbatim>\<open>Expected\<close> value
  (internal/expected.hpp is not among the sources).  The source only ever creates one
  from a message, \<^verbatim>\<open>Error::create(msg)\<close>, and reads the message back with
  \<^verbatim>\<open>message()\<close>; the specification speaks of a structured error with a kind.  An
  error created from a message alone has no kind.
\<close>

record Error =
  error_kind :: "ErrorCode option"
  error_message :: string

definition Error_create :: "string \<Rightarrow> Error" where
  "Error_create m = \<lparr>error_kind = None, error_message = m\<rparr>"

definition Error_create_kind :: "ErrorCode \<Rightarrow> string \<Rightarrow> Error" where
  "Error_create_kind k m = \<lparr>error_kind = Some k, error_message = m\<rparr>"

text \<open>\<^verbatim>\<open>Expected<T>\<close> is the sum \<open>Error + T\<close>; \<open>Inl\<close> is the failed state.\<close>

type_synonym 'a Expected = "Error + 'a"

text \<open>
  Modelled from the spec: the protobuf messages (architect.proto is not among the
  sources).  Fields are those named in sections 4.F and 6 of the specification.
  A repeated field is a list.
\<close>

record protos_Error =
  code :: ErrorCode
  message :: string

record RegisterWorkersRequest =
  ucx_worker_addresses :: "string list"

record RegisterWorkersResponse =
  instance_ids :: "instance_id_t list"
  machine_id :: stream_id_t

record CreateSubscriptionServiceRequest =
  req_service_name :: string
  req_roles :: "string list"

datatype Ack = Ack

text \<open>
  \<^verbatim>\<open>google::protobuf::Any\<close>: a message together with its type.  \<^verbatim>\<open>PackFrom\<close> is the
  constructor for the message's type; \<^verbatim>\<open>UnpackTo\<close> succeeds exactly when the packed
  type is the requested one.
\<close>

datatype Any =
    Any_Error protos_Error
  | Any_RegisterWorkersRequest RegisterWorkersRequest
  | Any_RegisterWorkersResponse RegisterWorkersResponse
  | Any_CreateSubscriptionServiceRequest CreateSubscriptionServiceRequest
  | Any_Ack Ack

fun UnpackTo_RegisterWorkersRequest :: "Any \<Rightarrow> RegisterWorkersRequest option" where
  "UnpackTo_RegisterWorkersRequest (Any_RegisterWorkersRequest r) = Some r"
| "UnpackTo_RegisterWorkersRequest _ = None"

fun UnpackTo_CreateSubscriptionServiceRequest ::
  "Any \<Rightarrow> CreateSubscriptionServiceRequest option" where
  "UnpackTo_CreateSubscriptionServiceRequest (Any_CreateSubscriptionServiceRequest r) = Some r"
| "UnpackTo_CreateSubscriptionServiceRequest _ = None"

text \<open>
  Modelled from the spec: \<^verbatim>\<open>protos::EventType\<close> and the \<^verbatim>\<open>protos::Event\<close> envelope
  (architect.proto is not among the sources).  Section 6: an envelope carries a
  correlation tag, an event type and a typed payload.  The envelope carries one
  payload: a packed message, an error, or nothing, so \<^verbatim>\<open>has_message()\<close> and
  \<^verbatim>\<open>has_error()\<close> are never both true.
\<close>

datatype EventType =
  Request | Response | Update | Error | ClientEventStreamDisconnect

datatype Payload =
    NoPayload
  | Message Any
  | ErrorPayload protos_Error

record Event =
  event_tag :: tag_t
  event_type :: EventType
  payload :: Payload

definition has_message :: "Event \<Rightarrow> bool" where
  "has_message e = (case payload e of Message _ \<Rightarrow> True | _ \<Rightarrow> False)"

definition has_error :: "Event \<Rightarrow> bool" where
  "has_error e = (case payload e of ErrorPayload _ \<Rightarrow> True | _ \<Rightarrow> False)"

text \<open>
  Modelled from the spec: the server stream and its writer (internal/grpc is not
  among the sources; section 1 treats the transport as an external collaborator with
  reliable, ordered streams).  A stream records what has been written to it.
  \<^verbatim>\<open>await_write\<close> on an open stream appends the event and reports success; on a
  closed stream it writes nothing and reports \<open>closed\<close>.
\<close>

datatype Status = success | closed

record Stream =
  stream_id :: stream_id_t
  is_open :: bool
  written :: "Event list"

definition await_write :: "Stream \<Rightarrow> Event \<Rightarrow> Status \<times> Stream" where
  "await_write s e =
     (if is_open s then (success, s\<lparr>written := written s @ [e]\<rparr>) else (closed, s))"

text \<open>\<^verbatim>\<open>event_t\<close> (\<^verbatim>\<open>IncomingData\<close>): the received envelope and the stream it came from.\<close>

record IncomingData =
  msg :: Event
  stream :: Stream

subsection \<open>check_unique_repeated_field (server.hpp, lines 129-138)\<close>

text \<open>
  The \<^verbatim>\<open>std::set\<close> built from the items is the HOL set of the list; its size is the
  cardinality.  \<^verbatim>\<open>RepeatedPtrField::size()\<close> is the length of the list, a
  non-negative \<^verbatim>\<open>int\<close>, so comparing it with the set's \<^verbatim>\<open>size_t\<close> size compares
  the two counts.
\<close>

definition check_unique_repeated_field :: "'a list \<Rightarrow> ('a set) Expected" where
  "check_unique_repeated_field items =
     (let unique = set items in
      if card unique \<noteq> length items
      then Inl (Error_create ''non-unique repeated field; duplicated detected'')
      else Inr unique)"

subsection \<open>unpack_request (server.hpp, lines 140-153)\<close>

text \<open>
  The template parameter \<^verbatim>\<open>T\<close> enters through \<^verbatim>\<open>UnpackTo\<close>, which is passed as the
  function \<open>unpack\<close>.  The checks are in the order of the source: first the packed
  message, then the error, then the fall-through failure.
\<close>

definition unpack_request :: "(Any \<Rightarrow> 't option) \<Rightarrow> IncomingData \<Rightarrow> 't Expected" where
  "unpack_request unpack event =
     (case (case payload (msg event) of Message a \<Rightarrow> unpack a | _ \<Rightarrow> None) of
        Some m \<Rightarrow> Inr m
      | None \<Rightarrow>
          (case payload (msg event) of
             ErrorPayload err \<Rightarrow> Inl (Error_create (message err))
           | _ \<Rightarrow> Inl (Error_create
                ''unable to unpack request; client an unexpected message type'')))"

subsection \<open>unary_response (server.hpp, lines 156-175)\<close>

text \<open>
  The part of \<^verbatim>\<open>unary_response\<close> after the error test (lines 166-174): build the
  outgoing envelope with the request's tag and the type \<open>Response\<close>, pack the
  message, write it to the event's stream.  The stream is returned as the write left it.
\<close>

definition write_response :: "('m \<Rightarrow> Any) \<Rightarrow> IncomingData \<Rightarrow> 'm \<Rightarrow> unit Expected \<times> Stream" where
  "write_response PackFrom event m =
     (let out = \<lparr>event_tag = event_tag (msg event), event_type = Response,
                 payload = Message (PackFrom m)\<rparr>;
          (st, s') = await_write (stream event) out
      in if st \<noteq> success
         then (Inl (Error_create ''failed to write to channel''), s')
         else (Inr (), s'))"

text \<open>
  The whole function.  A failed \<open>message\<close> is turned into a \<^verbatim>\<open>protos::Error\<close> with
  the code \<open>InstanceError\<close> and the failure's message, and \<^verbatim>\<open>unary_response\<close> is
  called again at the type \<^verbatim>\<open>protos::Error\<close> with that value; an \<^verbatim>\<open>Expected\<close> built
  from a value is not failed, so the second call runs lines 166-174.
\<close>

definition unary_response ::
  "('m \<Rightarrow> Any) \<Rightarrow> IncomingData \<Rightarrow> 'm Expected \<Rightarrow> unit Expected \<times> Stream" where
  "unary_response PackFrom event m =
     (case m of
        Inl e \<Rightarrow>
          write_response Any_Error event
            \<lparr>code = InstanceError, message = error_message e\<rparr>
      | Inr v \<Rightarrow> write_response PackFrom event v)"

section \<open>Ordered maps\<close>

text \<open>
  A \<^verbatim>\<open>std::map\<close> is kept as an association list in ascending key order, which is
  the order in which the C++ container is iterated.  \<open>std_map_emplace\<close> inserts a
  binding unless the key is already bound; \<open>std_map_erase\<close> removes the binding of a
  key; \<open>std_map_contains\<close> is \<^verbatim>\<open>find(k) != end()\<close>.
\<close>

fun std_map_emplace :: "'k::linorder \<Rightarrow> 'v \<Rightarrow> ('k \<times> 'v) list \<Rightarrow> ('k \<times> 'v) list" where
  "std_map_emplace k v [] = [(k, v)]"
| "std_map_emplace k v (p # m) =
     (if k < fst p then (k, v) # p # m
      else if k = fst p then p # m
      else p # std_map_emplace k v m)"

definition std_map_erase :: "'k \<Rightarrow> ('k \<times> 'v) list \<Rightarrow> ('k \<times> 'v) list" where
  "std_map_erase k m = filter (\<lambda>p. fst p \<noteq> k) m"

definition std_map_contains :: "'k \<Rightarrow> ('k \<times> 'v) list \<Rightarrow> bool" where
  "std_map_contains k m = (k \<in> set (map fst m))"

section \<open>Tagged services and roles\<close>

subsection \<open>Tagged (tagged_service.hpp, lines 36-62)\<close>

text \<open>
  The two members of \<^verbatim>\<open>Tagged\<close> with their types.  \<open>m_tag\<close> is initialised from the
  static \<^verbatim>\<open>next()\<close>, whose body is not among the sources; the value it returned is
  the argument of \<open>Tagged_new\<close>.  \<open>m_uid\<close> starts at 1.
\<close>

record Tagged =
  m_tag :: tag_t
  m_uid :: "16 word"

definition Tagged_new :: "tag_t \<Rightarrow> Tagged" where
  "Tagged_new tg = \<lparr>m_tag = tg, m_uid = 1\<rparr>"

subsection \<open>Role (subscription_service.hpp, lines 78-109)\<close>

text \<open>
  The members of \<^verbatim>\<open>Role\<close> with their types and initial values; the constructor is in
  the header.  A role refers to a client instance by its instance id.  \<^verbatim>\<open>std::size_t\<close>
  is 64 bits wide.
\<close>

record Role =
  m_service_name :: string
  m_role_name :: string
  m_members :: "(tag_t \<times> instance_id_t) list"
  m_subscribers :: "(tag_t \<times> instance_id_t) list"
  m_nonce :: "64 word"
  m_last_update :: "64 word"

definition Role_new :: "string \<Rightarrow> string \<Rightarrow> Role" where
  "Role_new service_name role_name =
     \<lparr>m_service_name = service_name, m_role_name = role_name,
      m_members = [], m_subscribers = [], m_nonce = 1, m_last_update = 1\<rparr>"

text \<open>
  Modelled from the spec: the bodies of \<^verbatim>\<open>Role::add_member\<close>,
  \<^verbatim>\<open>Role::add_subscriber\<close>, \<^verbatim>\<open>Role::drop_tag\<close>, \<^verbatim>\<open>Role::make_update\<close> and
  \<^verbatim>\<open>Role::issue_update\<close> are missing.  Section 4.C: \<^verbatim>\<open>add_member\<close> inserts the tag if
  it is not yet present and increments the nonce; \<^verbatim>\<open>add_subscriber\<close> is analogous;
  \<^verbatim>\<open>drop_tag\<close> removes the tag from either map and increments the nonce if it was
  removed from anywhere; \<^verbatim>\<open>issue_update\<close> does nothing when \<open>last_update = nonce\<close>,
  and otherwise sends one update (service name, role name, nonce, the members in tag
  order) to every subscriber and sets \<open>last_update\<close> to the nonce.  The header's
  comments agree: the nonce is incremented when either list is updated, and the
  update goes to all subscribers and lists every member.
\<close>

record SubscriptionServiceUpdate =
  upd_service_name :: string
  upd_role_name :: string
  upd_nonce :: "64 word"
  upd_entries :: "(tag_t \<times> instance_id_t) list"

definition add_member :: "tag_t \<Rightarrow> instance_id_t \<Rightarrow> Role \<Rightarrow> Role" where
  "add_member tag inst r =
     (if std_map_contains tag (m_members r) then r
      else r\<lparr>m_members := std_map_emplace tag inst (m_members r),
             m_nonce := m_nonce r + 1\<rparr>)"

definition add_subscriber :: "tag_t \<Rightarrow> instance_id_t \<Rightarrow> Role \<Rightarrow> Role" where
  "add_subscriber tag inst r =
     (if std_map_contains tag (m_subscribers r) then r
      else r\<lparr>m_subscribers := std_map_emplace tag inst (m_subscribers r),
             m_nonce := m_nonce r + 1\<rparr>)"

definition Role_drop_tag :: "tag_t \<Rightarrow> Role \<Rightarrow> Role" where
  "Role_drop_tag tag r =
     (if std_map_contains tag (m_members r) \<or> std_map_contains tag (m_subscribers r)
      then r\<lparr>m_members := std_map_erase tag (m_members r),
             m_subscribers := std_map_erase tag (m_subscribers r),
             m_nonce := m_nonce r + 1\<rparr>
      else r)"

definition make_update :: "Role \<Rightarrow> SubscriptionServiceUpdate" where
  "make_update r =
     \<lparr>upd_service_name = m_service_name r, upd_role_name = m_role_name r,
      upd_nonce = m_nonce r, upd_entries = m_members r\<rparr>"

text \<open>
  The result of \<open>Role_issue_update\<close> lists what was sent, in the order of the
  subscribers map: the receiving instance and the update.
\<close>

type_synonym delivery = "instance_id_t \<times> SubscriptionServiceUpdate"

definition Role_issue_update :: "Role \<Rightarrow> delivery list \<times> Role" where
  "Role_issue_update r =
     (if m_last_update r = m_nonce r then ([], r)
      else (map (\<lambda>sub. (snd sub, make_update r)) (m_subscribers r),
            r\<lparr>m_last_update := m_nonce r\<rparr>))"

text \<open>One call on a role, and a sequence of calls from left to right.\<close>

datatype Role_call =
    Add_member tag_t instance_id_t
  | Add_subscriber tag_t instance_id_t
  | Drop_tag tag_t
  | Issue_update

fun Role_step :: "Role \<Rightarrow> Role_call \<Rightarrow> Role" where
  "Role_step r (Add_member tag inst) = add_member tag inst r"
| "Role_step r (Add_subscriber tag inst) = add_subscriber tag inst r"
| "Role_step r (Drop_tag tag) = Role_drop_tag tag r"
| "Role_step r Issue_update = snd (Role_issue_update r)"

definition Role_run :: "Role \<Rightarrow> Role_call list \<Rightarrow> Role" where
  "Role_run r calls = foldl Role_step r calls"

subsection \<open>TaggedService and SubscriptionService\<close>

text \<open>
  The data members of \<^verbatim>\<open>SubscriptionService\<close> (subscription_service.hpp, lines 62-66)
  and of its bases \<^verbatim>\<open>TaggedService\<close> (tagged_service.hpp, line 99) and \<^verbatim>\<open>Tagged\<close>.
  The \<^verbatim>\<open>std::multimap\<close> is an association list in ascending key order that may
  repeat a key.
\<close>

record SubscriptionService =
  tagged :: Tagged
  m_instance_tags :: "(instance_id_t \<times> tag_t) list"
  m_name :: string
  m_roles :: "(string \<times> Role) list"

fun std_multimap_insert :: "'k::linorder \<Rightarrow> 'v \<Rightarrow> ('k \<times> 'v) list \<Rightarrow> ('k \<times> 'v) list" where
  "std_multimap_insert k v [] = [(k, v)]"
| "std_multimap_insert k v (p # m) =
     (if k < fst p then (k, v) # p # m else p # std_multimap_insert k v m)"

text \<open>
  Modelled from the spec: the bodies of the \<^verbatim>\<open>SubscriptionService\<close> constructor,
  \<^verbatim>\<open>add_role\<close>, \<^verbatim>\<open>has_role\<close> and \<^verbatim>\<open>compare_roles\<close> are missing.  Section 4.D: the
  roles are built at construction from the set of role names and an empty set is
  rejected; \<^verbatim>\<open>has_role\<close> tells whether a name is one of the roles;
  \<^verbatim>\<open>compare_roles\<close> holds iff the role sets match exactly.  A \<^verbatim>\<open>std::set\<close> of names
  is a HOL set, visited in ascending order.
\<close>

definition add_role :: "string \<Rightarrow> SubscriptionService \<Rightarrow> SubscriptionService" where
  "add_role name svc =
     svc\<lparr>m_roles := std_map_emplace name (Role_new (m_name svc) name) (m_roles svc)\<rparr>"

definition SubscriptionService_new ::
  "tag_t \<Rightarrow> string \<Rightarrow> string set \<Rightarrow> SubscriptionService Expected" where
  "SubscriptionService_new tg name roles =
     (if roles = {} then Inl (Error_create ''subscription service without roles'')
      else Inr (fold add_role (sorted_list_of_set roles)
                  \<lparr>tagged = Tagged_new tg, m_instance_tags = [], m_name = name,
                   m_roles = []\<rparr>))"

definition has_role :: "SubscriptionService \<Rightarrow> string \<Rightarrow> bool" where
  "has_role svc role = std_map_contains role (m_roles svc)"

definition compare_roles :: "SubscriptionService \<Rightarrow> string set \<Rightarrow> bool" where
  "compare_roles svc roles = (roles = set (map fst (m_roles svc)))"

section \<open>The server's state and two unary handlers\<close>

text \<open>
  Modelled from the spec: \<^verbatim>\<open>server::ClientInstance\<close> (client_instance.hpp is not among
  the sources).  Section 3: a registered worker endpoint with its instance id, the
  stream that owns it and its UCX worker address.
\<close>

record ClientInstance =
  ci_instance_id :: instance_id_t
  ci_stream_id :: stream_id_t
  worker_address :: string

text \<open>
  The connection state and the subscription services of \<^verbatim>\<open>Server\<close> (server.hpp, lines
  89-96).  The last two fields stand for the process-wide counters from which instance
  ids and service ids are drawn; both start at 1 (sections 4.A and 8, scenario S1).
\<close>

record Server =
  m_streams :: "(stream_id_t \<times> Stream) list"
  m_instances :: "(instance_id_t \<times> ClientInstance) list"
  m_instances_by_stream :: "(stream_id_t \<times> instance_id_t) list"
  m_ucx_worker_addresses :: "string set"
  m_subscription_services :: "(string \<times> SubscriptionService) list"
  next_instance_id :: instance_id_t
  next_service_id :: "32 word"

definition Server_new :: Server where
  "Server_new =
     \<lparr>m_streams = [], m_instances = [], m_instances_by_stream = [],
      m_ucx_worker_addresses = {}, m_subscription_services = [],
      next_instance_id = 1, next_service_id = 1\<rparr>"

text \<open>
  Modelled from the spec: the body of \<^verbatim>\<open>Server::unary_register_workers\<close> is missing.
  Section 4.F: the UCX addresses must be unique across the request and against
  \<open>m_ucx_worker_addresses\<close>; then one instance id is allocated per address, the
  instance is bound to the stream, and the response carries the instance ids and the
  machine id.  Scenario S2 fixes the failure for an address that is already
  registered: a \<open>DuplicateUcxAddress\<close> error naming that address, the set unchanged.
  Uniqueness across the request is checked with \<^verbatim>\<open>check_unique_repeated_field\<close>.
\<close>

definition add_instance :: "Stream \<Rightarrow> string \<Rightarrow> Server \<Rightarrow> instance_id_t \<times> Server" where
  "add_instance st addr s =
     (let i = next_instance_id s
      in (i, s\<lparr>m_instances :=
                  std_map_emplace i
                    \<lparr>ci_instance_id = i, ci_stream_id = stream_id st, worker_address = addr\<rparr>
                    (m_instances s),
                m_instances_by_stream :=
                  std_multimap_insert (stream_id st) i (m_instances_by_stream s),
                m_ucx_worker_addresses := insert addr (m_ucx_worker_addresses s),
                next_instance_id := i + 1\<rparr>))"

fun add_instances :: "Stream \<Rightarrow> string list \<Rightarrow> Server \<Rightarrow> instance_id_t list \<times> Server" where
  "add_instances st [] s = ([], s)"
| "add_instances st (a # as) s =
     (let (i, s') = add_instance st a s;
          (ids, s'') = add_instances st as s'
      in (i # ids, s''))"

definition unary_register_workers ::
  "IncomingData \<Rightarrow> Server \<Rightarrow> RegisterWorkersResponse Expected \<times> Server" where
  "unary_register_workers event s =
     (case unpack_request UnpackTo_RegisterWorkersRequest event of
        Inl e \<Rightarrow> (Inl e, s)
      | Inr req \<Rightarrow>
          (case filter (\<lambda>a. a \<in> m_ucx_worker_addresses s) (ucx_worker_addresses req) of
             a # _ \<Rightarrow> (Inl (Error_create_kind DuplicateUcxAddress a), s)
           | [] \<Rightarrow>
               (case check_unique_repeated_field (ucx_worker_addresses req) of
                  Inl e \<Rightarrow> (Inl e, s)
                | Inr _ \<Rightarrow>
                    (let (ids, s') =
                           add_instances (stream event) (ucx_worker_addresses req) s
                     in (Inr \<lparr>instance_ids = ids,
                              machine_id = stream_id (stream event)\<rparr>, s')))))"

text \<open>
  Modelled from the spec: the body of \<^verbatim>\<open>Server::unary_create_subscription_service\<close>
  is missing.  Section 4.F: if the name is absent, the service is created with the
  requested role set; if it is present, the request is accepted iff the role sets
  match, and fails otherwise (\<open>ServiceMismatch\<close>, scenario S6).  A new service takes
  the next service id, shifted into the upper 32 bits, as its tag value; running out of
  service ids is a failure (section 4.A).
\<close>

definition unary_create_subscription_service ::
  "IncomingData \<Rightarrow> Server \<Rightarrow> Ack Expected \<times> Server" where
  "unary_create_subscription_service event s =
     (case unpack_request UnpackTo_CreateSubscriptionServiceRequest event of
        Inl e \<Rightarrow> (Inl e, s)
      | Inr req \<Rightarrow>
          (case map_of (m_subscription_services s) (req_service_name req) of
             None \<Rightarrow>
               if next_service_id s = 0xFFFFFFFF
               then (Inl (Error_create ''service ids exhausted''), s)
               else
                 (case SubscriptionService_new (push_bit 32 (ucast (next_service_id s)))
                         (req_service_name req) (set (req_roles req)) of
                    Inl e \<Rightarrow> (Inl e, s)
                  | Inr svc \<Rightarrow>
                      (Inr Ack,
                       s\<lparr>m_subscription_services :=
                            std_map_emplace (req_service_name req) svc
                              (m_subscription_services s),
                          next_service_id := next_service_id s + 1\<rparr>))
           | Some svc \<Rightarrow>
               if compare_roles svc (set (req_roles req)) then (Inr Ack, s)
               else (Inl (Error_create_kind ServiceMismatch (req_service_name req)), s)))"

text \<open>
  Modelled from the spec: the requests of scenarios S1, S2 and S6 of section 8.  A
  \<^verbatim>\<open>RegisterWorkers\<close> request with the given addresses and a
  \<^verbatim>\<open>CreateSubscriptionService\<close> request with the given name and roles, each arriving
  with correlation tag \<open>tag\<close> on the open stream \<open>sid\<close>.
\<close>

definition register_workers_event :: "tag_t \<Rightarrow> stream_id_t \<Rightarrow> string list \<Rightarrow> IncomingData" where
  "register_workers_event tag sid addresses =
     \<lparr>msg = \<lparr>event_tag = tag, event_type = Request,
              payload = Message (Any_RegisterWorkersRequest
                          \<lparr>ucx_worker_addresses = addresses\<rparr>)\<rparr>,
      stream = \<lparr>stream_id = sid, is_open = True, written = []\<rparr>\<rparr>"

definition create_service_event ::
  "tag_t \<Rightarrow> stream_id_t \<Rightarrow> string \<Rightarrow> string list \<Rightarrow> IncomingData" where
  "create_service_event tag sid name roles =
     \<lparr>msg = \<lparr>event_tag = tag, event_type = Request,
              payload = Message (Any_CreateSubscriptionServiceRequest
                          \<lparr>req_service_name = name, req_roles = roles\<rparr>)\<rparr>,
      stream = \<lparr>stream_id = sid, is_open = True, written = []\<rparr>\<rparr>"

section \<open>The pipeline instance\<close>

text \<open>
  Modelled from the spec: the bodies of \<^verbatim>\<open>PipelineInstance\<close>'s methods are missing
  (pipeline_instance.hpp only declares them), and so are the types of their arguments
  (mrc/types.hpp, the control plane's state).  Sections 4.H and 4.I: a segment goes
  from created to running, stopping and joined, and is then removed; a manifold is
  created lazily and then connected.  \<^verbatim>\<open>create_segment\<close> is a no-op for an address
  that is already present; \<^verbatim>\<open>remove_segment\<close> requires the segment to be joined;
  \<^verbatim>\<open>get_manifold\<close> constructs a manifold that is absent.  \<^verbatim>\<open>update\<close> (1) creates and
  stages each target segment that is absent locally, (2) stops, joins and removes
  each local segment that is absent from the target, (3) makes sure every manifold
  referenced by a staged segment exists, and (4) starts all staged objects after all
  have been created.  The instance keeps a log of the lifecycle transitions it made.
\<close>

type_synonym SegmentAddress = nat
type_synonym PortName = string

datatype SegmentState = SegmentCreated | SegmentRunning | SegmentStopping | SegmentJoined

datatype ManifoldState = ManifoldCreated | ManifoldConnected | ManifoldDraining | ManifoldClosed

record SegmentInstance =
  seg_partition_id :: "32 word"
  seg_state :: SegmentState

datatype Transition =
    CreateSegment SegmentAddress
  | StartSegment SegmentAddress
  | StopSegment SegmentAddress
  | JoinSegment SegmentAddress
  | RemoveSegment SegmentAddress
  | CreateManifold PortName
  | StartManifold PortName

record PipelineInstance =
  m_instance_id :: "64 word"
  m_segments :: "(SegmentAddress \<times> SegmentInstance) list"
  m_manifold_instances :: "(PortName \<times> ManifoldState) list"
  m_joinable :: bool
  transitions :: "Transition list"

record TargetSegment =
  tgt_address :: SegmentAddress
  tgt_partition_id :: "32 word"
  tgt_ports :: "PortName list"

definition log_transition :: "Transition \<Rightarrow> PipelineInstance \<Rightarrow> PipelineInstance" where
  "log_transition t p = p\<lparr>transitions := transitions p @ [t]\<rparr>"

definition set_segment_state ::
  "SegmentAddress \<Rightarrow> SegmentState \<Rightarrow> PipelineInstance \<Rightarrow> PipelineInstance" where
  "set_segment_state a st p =
     p\<lparr>m_segments :=
         map (\<lambda>q. if fst q = a then (fst q, (snd q)\<lparr>seg_state := st\<rparr>) else q) (m_segments p)\<rparr>"

definition create_segment ::
  "SegmentAddress \<Rightarrow> 32 word \<Rightarrow> PipelineInstance \<Rightarrow> PipelineInstance" where
  "create_segment a partition_id p =
     (if std_map_contains a (m_segments p) then p
      else log_transition (CreateSegment a)
             (p\<lparr>m_segments :=
                  std_map_emplace a
                    \<lparr>seg_partition_id = partition_id, seg_state = SegmentCreated\<rparr>
                    (m_segments p)\<rparr>))"

definition start_segment :: "SegmentAddress \<Rightarrow> PipelineInstance \<Rightarrow> PipelineInstance" where
  "start_segment a p =
     (if std_map_contains a (m_segments p)
      then log_transition (StartSegment a) (set_segment_state a SegmentRunning p)
      else p)"

definition stop_segment :: "SegmentAddress \<Rightarrow> PipelineInstance \<Rightarrow> PipelineInstance" where
  "stop_segment a p =
     (if std_map_contains a (m_segments p)
      then log_transition (StopSegment a) (set_segment_state a SegmentStopping p)
      else p)"

definition join_segment :: "SegmentAddress \<Rightarrow> PipelineInstance \<Rightarrow> PipelineInstance" where
  "join_segment a p =
     (if std_map_contains a (m_segments p)
      then log_transition (JoinSegment a) (set_segment_state a SegmentJoined p)
      else p)"

definition remove_segment :: "SegmentAddress \<Rightarrow> PipelineInstance \<Rightarrow> PipelineInstance" where
  "remove_segment a p =
     (case map_of (m_segments p) a of
        None \<Rightarrow> p
      | Some seg \<Rightarrow>
          if seg_state seg = SegmentJoined
          then log_transition (RemoveSegment a)
                 (p\<lparr>m_segments := std_map_erase a (m_segments p)\<rparr>)
          else p)"

definition get_manifold :: "PortName \<Rightarrow> PipelineInstance \<Rightarrow> PipelineInstance" where
  "get_manifold port_name p =
     (if std_map_contains port_name (m_manifold_instances p) then p
      else log_transition (CreateManifold port_name)
             (p\<lparr>m_manifold_instances :=
                  std_map_emplace port_name ManifoldCreated (m_manifold_instances p)\<rparr>))"

definition start_manifold :: "PortName \<Rightarrow> PipelineInstance \<Rightarrow> PipelineInstance" where
  "start_manifold port_name p =
     log_transition (StartManifold port_name)
       (p\<lparr>m_manifold_instances :=
            map (\<lambda>q. if fst q = port_name then (fst q, ManifoldConnected) else q)
              (m_manifold_instances p)\<rparr>)"

text \<open>Step 1 of \<^verbatim>\<open>update\<close>: the staged segments, and the instance with them created.\<close>

fun stage_segments ::
  "TargetSegment list \<Rightarrow> PipelineInstance \<Rightarrow> TargetSegment list \<times> PipelineInstance" where
  "stage_segments [] p = ([], p)"
| "stage_segments (t # ts) p =
     (if std_map_contains (tgt_address t) (m_segments p) then stage_segments ts p
      else (let (staged, p') =
                  stage_segments ts (create_segment (tgt_address t) (tgt_partition_id t) p)
            in (t # staged, p')))"

text \<open>Step 2 for one segment: stop, join, remove.\<close>

definition retire_segment :: "SegmentAddress \<Rightarrow> PipelineInstance \<Rightarrow> PipelineInstance" where
  "retire_segment a p = remove_segment a (join_segment a (stop_segment a p))"

definition update :: "TargetSegment list \<Rightarrow> PipelineInstance \<Rightarrow> PipelineInstance" where
  "update target p =
     (let (staged, p1) = stage_segments target p;
          absent = filter (\<lambda>a. a \<notin> set (map tgt_address target)) (map fst (m_segments p1));
          p2 = fold retire_segment absent p1;
          ports = remdups (concat (map tgt_ports staged));
          created = filter (\<lambda>q. \<not> std_map_contains q (m_manifold_instances p2)) ports;
          p3 = fold get_manifold ports p2;
          p4 = fold start_manifold created p3
      in fold (\<lambda>t. start_segment (tgt_address t)) staged p4)"

abbreviation segment_keys :: "PipelineInstance \<Rightarrow> SegmentAddress set" where
  "segment_keys p \<equiv> fst ` set (m_segments p)"

section \<open>Properties of the server's helpers\<close>

lemma check_unique_repeated_field_distinct:
  "check_unique_repeated_field items =
     (if distinct items then Inr (set items)
      else Inl (Error_create ''non-unique repeated field; duplicated detected''))"
proof (cases "distinct items")
  case True
  then show ?thesis
    by (simp add: check_unique_repeated_field_def Let_def distinct_card)
next
  case False
  then have "card (set items) \<noteq> length items"
    using card_distinct by blast
  with False show ?thesis
    by (simp add: check_unique_repeated_field_def Let_def)
qed

text \<open>
  C5.  \<^verbatim>\<open>check_unique_repeated_field\<close> fails exactly when the repeated field holds
  some element twice, which is exactly when the size of the materialised set differs
  from the number of items; when it succeeds it returns the set of the items.
\<close>

theorem check_unique_repeated_field_spec:
  "(isl (check_unique_repeated_field items) \<longleftrightarrow> \<not> distinct items) \<and>
   (\<not> distinct items \<longleftrightarrow> card (set items) \<noteq> length items) \<and>
   (\<not> isl (check_unique_repeated_field items) \<longrightarrow>
      check_unique_repeated_field items = Inr (set items))"
proof -
  have "\<not> distinct items \<longleftrightarrow> card (set items) \<noteq> length items"
    using card_distinct distinct_card by blast
  then show ?thesis
    by (simp add: check_unique_repeated_field_distinct)
qed

theorem check_unique_repeated_field_spec_witness:
  "isl (check_unique_repeated_field [''a'', ''b'', ''a'']) \<and>
   check_unique_repeated_field [''a'', ''b''] = Inr {''a'', ''b''}"
  using check_unique_repeated_field_spec [of "[''a'', ''b'', ''a'']"]
        check_unique_repeated_field_spec [of "[''a'', ''b'']"]
  by simp

lemma has_message_has_error_exclusive: "\<not> (has_message e \<and> has_error e)"
  by (simp add: has_message_def has_error_def split: Payload.splits)

text \<open>
  C4.  \<^verbatim>\<open>unpack_request\<close> on any event: an event that carries an error payload
  yields that error's message as the failure; an event whose packed message unpacks
  to the requested type yields the unpacked value; every other event fails with the
  unexpected-message-type error.
\<close>

theorem unpack_request_spec:
  "(has_error (msg event) \<longrightarrow>
      (\<exists>err. payload (msg event) = ErrorPayload err \<and>
             unpack_request unpack event = Inl (Error_create (message err)))) \<and>
   (\<forall>a v. payload (msg event) = Message a \<and> unpack a = Some v \<longrightarrow>
      unpack_request unpack event = Inr v) \<and>
   (\<not> has_error (msg event) \<and>
    \<not> (\<exists>a v. payload (msg event) = Message a \<and> unpack a = Some v) \<longrightarrow>
      unpack_request unpack event =
        Inl (Error_create ''unable to unpack request; client an unexpected message type''))"
  by (cases "payload (msg event)")
     (auto simp: unpack_request_def has_error_def split: option.splits)

theorem unpack_request_spec_witness:
  "unpack_request UnpackTo_RegisterWorkersRequest
     \<lparr>msg = \<lparr>event_tag = 5, event_type = Request,
              payload = ErrorPayload \<lparr>code = InstanceError, message = ''lost''\<rparr>\<rparr>,
      stream = \<lparr>stream_id = 1, is_open = True, written = []\<rparr>\<rparr>
     = Inl (Error_create ''lost'') \<and>
   unpack_request UnpackTo_RegisterWorkersRequest
     \<lparr>msg = \<lparr>event_tag = 5, event_type = Request,
              payload = Message (Any_RegisterWorkersRequest
                          \<lparr>ucx_worker_addresses = [''ucx://a'']\<rparr>)\<rparr>,
      stream = \<lparr>stream_id = 1, is_open = True, written = []\<rparr>\<rparr>
     = Inr \<lparr>ucx_worker_addresses = [''ucx://a'']\<rparr> \<and>
   unpack_request UnpackTo_RegisterWorkersRequest
     \<lparr>msg = \<lparr>event_tag = 5, event_type = Request, payload = Message (Any_Ack Ack)\<rparr>,
      stream = \<lparr>stream_id = 1, is_open = True, written = []\<rparr>\<rparr>
     = Inl (Error_create ''unable to unpack request; client an unexpected message type'')"
  using
    unpack_request_spec [of
      "\<lparr>msg = \<lparr>event_tag = 5, event_type = Request,
               payload = ErrorPayload \<lparr>code = InstanceError, message = ''lost''\<rparr>\<rparr>,
        stream = \<lparr>stream_id = 1, is_open = True, written = []\<rparr>\<rparr>"
      UnpackTo_RegisterWorkersRequest]
    unpack_request_spec [of
      "\<lparr>msg = \<lparr>event_tag = 5, event_type = Request,
               payload = Message (Any_RegisterWorkersRequest
                           \<lparr>ucx_worker_addresses = [''ucx://a'']\<rparr>)\<rparr>,
        stream = \<lparr>stream_id = 1, is_open = True, written = []\<rparr>\<rparr>"
      UnpackTo_RegisterWorkersRequest]
    unpack_request_spec [of
      "\<lparr>msg = \<lparr>event_tag = 5, event_type = Request, payload = Message (Any_Ack Ack)\<rparr>,
        stream = \<lparr>stream_id = 1, is_open = True, written = []\<rparr>\<rparr>"
      UnpackTo_RegisterWorkersRequest]
  by (simp add: has_error_def)

lemma write_response_open:
  "is_open (stream event) \<Longrightarrow>
     write_response PackFrom event m =
       (Inr (),
        (stream event)\<lparr>written := written (stream event) @
           [\<lparr>event_tag = event_tag (msg event), event_type = Response,
             payload = Message (PackFrom m)\<rparr>]\<rparr>)"
  by (simp add: write_response_def await_write_def)

lemma write_response_closed:
  "\<not> is_open (stream event) \<Longrightarrow>
     write_response PackFrom event m =
       (Inl (Error_create ''failed to write to channel''), stream event)"
  by (simp add: write_response_def await_write_def)

text \<open>
  C10.  Whatever the failure of the handler was, the message that \<^verbatim>\<open>unary_response\<close>
  writes back for it is a \<^verbatim>\<open>protos::Error\<close> whose code is \<open>InstanceError\<close> and whose
  text is the failure's message: the kind of the failure does not reach the client.
  (On a closed stream nothing is written.)
\<close>

theorem unary_response_error_code:
  "written (snd (unary_response PackFrom event (Inl e))) =
     written (stream event) @
       (if is_open (stream event)
        then [\<lparr>event_tag = event_tag (msg event), event_type = Response,
               payload = Message (Any_Error
                 \<lparr>code = InstanceError, message = error_message e\<rparr>)\<rparr>]
        else [])"
  by (simp add: unary_response_def write_response_open write_response_closed)

text \<open>
  C3, as the specification states it, asks for an envelope of type \<open>Error\<close>.  The
  envelope written for a failed handler has the request's tag, but its type is
  \<open>Response\<close>; the error travels as the packed payload.  At a concrete failed
  \<^verbatim>\<open>RegisterWorkers\<close> request with tag 7 no envelope of type \<open>Error\<close> is written.
\<close>

theorem unary_response_event_type_counterexample:
  "written (snd (unary_response Any_RegisterWorkersResponse
     \<lparr>msg = \<lparr>event_tag = 7, event_type = Request,
              payload = Message (Any_RegisterWorkersRequest
                          \<lparr>ucx_worker_addresses = [''ucx://a'']\<rparr>)\<rparr>,
      stream = \<lparr>stream_id = 1, is_open = True, written = []\<rparr>\<rparr>
     (Inl (Error_create_kind DuplicateUcxAddress ''ucx://a''))))
   = [\<lparr>event_tag = 7, event_type = Response,
       payload = Message (Any_Error \<lparr>code = InstanceError, message = ''ucx://a''\<rparr>)\<rparr>] \<and>
   \<not> (\<exists>out \<in> set (written (snd (unary_response Any_RegisterWorkersResponse
     \<lparr>msg = \<lparr>event_tag = 7, event_type = Request,
              payload = Message (Any_RegisterWorkersRequest
                          \<lparr>ucx_worker_addresses = [''ucx://a'']\<rparr>)\<rparr>,
      stream = \<lparr>stream_id = 1, is_open = True, written = []\<rparr>\<rparr>
     (Inl (Error_create_kind DuplicateUcxAddress ''ucx://a''))))).
        event_type out = Error)"
  by (simp add: unary_response_def write_response_def await_write_def
        Error_create_kind_def)

text \<open>
  C3, amended.  For every failed handler result and every event that arrived on an
  open stream, \<^verbatim>\<open>unary_response\<close> succeeds and appends to that stream exactly one
  envelope: its tag is the request's tag, its type is \<open>Response\<close>, and its payload is
  the packed \<^verbatim>\<open>protos::Error\<close> carrying \<open>InstanceError\<close> and the failure's message.
  The stream is otherwise untouched; in particular it is still open.
\<close>

theorem unary_response_failure_envelope:
  assumes "is_open (stream event)"
  shows "unary_response PackFrom event (Inl e) =
           (Inr (),
            (stream event)\<lparr>written := written (stream event) @
               [\<lparr>event_tag = event_tag (msg event), event_type = Response,
                 payload = Message (Any_Error
                   \<lparr>code = InstanceError, message = error_message e\<rparr>)\<rparr>]\<rparr>) \<and>
         is_open (snd (unary_response PackFrom event (Inl e))) \<and>
         stream_id (snd (unary_response PackFrom event (Inl e))) = stream_id (stream event)"
  using assms by (simp add: unary_response_def write_response_open)

theorem unary_response_failure_envelope_witness:
  "unary_response Any_Ack
     \<lparr>msg = \<lparr>event_tag = 9, event_type = Request, payload = NoPayload\<rparr>,
      stream = \<lparr>stream_id = 3, is_open = True, written = []\<rparr>\<rparr>
     (Inl (Error_create ''bad request''))
   = (Inr (),
      \<lparr>stream_id = 3, is_open = True,
       written = [\<lparr>event_tag = 9, event_type = Response,
                   payload = Message (Any_Error
                     \<lparr>code = InstanceError, message = ''bad request''\<rparr>)\<rparr>]\<rparr>)"
  using unary_response_failure_envelope [of
      "\<lparr>msg = \<lparr>event_tag = 9, event_type = Request, payload = NoPayload\<rparr>,
        stream = \<lparr>stream_id = 3, is_open = True, written = []\<rparr>\<rparr>"
      Any_Ack "Error_create ''bad request''"]
  by (simp add: Error_create_def)

section \<open>Properties of roles\<close>

lemma Role_step_inv:
  assumes "m_last_update r \<le> m_nonce r" "unat (m_nonce r) + 1 < 2 ^ 64"
  shows "m_last_update (Role_step r c) \<le> m_nonce (Role_step r c) \<and>
         unat (m_nonce (Role_step r c)) \<le> unat (m_nonce r) + 1"
proof -
  have u: "unat (m_nonce r + 1) = unat (m_nonce r) + 1"
    using assms(2) by (simp add: unat_add_lem [THEN iffD1])
  then have "m_last_update r \<le> m_nonce r + 1"
    using assms(1) by (simp add: word_le_nat_alt)
  with u show ?thesis
    using assms(1)
    by (cases c)
       (auto simp: add_member_def add_subscriber_def Role_drop_tag_def Role_issue_update_def)
qed

lemma Role_run_inv:
  assumes "m_last_update r \<le> m_nonce r" "unat (m_nonce r) + length calls < 2 ^ 64"
  shows "m_last_update (Role_run r calls) \<le> m_nonce (Role_run r calls) \<and>
         unat (m_nonce (Role_run r calls)) \<le> unat (m_nonce r) + length calls"
  using assms
proof (induction calls arbitrary: r)
  case Nil
  then show ?case by (simp add: Role_run_def)
next
  case (Cons c calls)
  have s: "m_last_update (Role_step r c) \<le> m_nonce (Role_step r c) \<and>
         unat (m_nonce (Role_step r c)) \<le> unat (m_nonce r) + 1"
    using Cons.prems by (intro Role_step_inv) simp_all
  then have "unat (m_nonce (Role_step r c)) + length calls < 2 ^ 64"
    using Cons.prems(2) by simp
  with s have "m_last_update (Role_run (Role_step r c) calls) \<le> m_nonce (Role_run (Role_step r c) calls) \<and>
         unat (m_nonce (Role_run (Role_step r c) calls)) \<le> unat (m_nonce (Role_step r c)) + length calls"
    by (intro Cons.IH) simp_all
  with s show ?case by (simp add: Role_run_def)
qed

text \<open>
  C1.  For a freshly constructed role and every sequence of calls of \<^verbatim>\<open>add_member\<close>,
  \<^verbatim>\<open>add_subscriber\<close>, \<^verbatim>\<open>drop_tag\<close> and \<^verbatim>\<open>issue_update\<close>: afterwards
  \<open>last_update \<le> nonce\<close>; \<^verbatim>\<open>issue_update\<close> sends the update to every subscriber if
  \<open>last_update < nonce\<close> and sends nothing and changes nothing otherwise; and once
  \<^verbatim>\<open>issue_update\<close> has returned, \<open>last_update\<close> equals the nonce.  The nonce is a
  64-bit counter that starts at 1 and grows by at most one per call; the sequences
  covered are those of fewer than \<open>2\<^sup>6\<^sup>4 - 1\<close> calls, on which it cannot wrap
  around; a running server cannot receive a longer one.
\<close>

theorem Role_last_update_le_nonce:
  assumes "length calls < 2 ^ 64 - 1"
  shows "let r = Role_run (Role_new service_name role_name) calls in
           m_last_update r \<le> m_nonce r \<and>
           Role_issue_update r =
             (if m_last_update r < m_nonce r
              then (map (\<lambda>sub. (snd sub, make_update r)) (m_subscribers r),
                    r\<lparr>m_last_update := m_nonce r\<rparr>)
              else ([], r)) \<and>
           m_last_update (snd (Role_issue_update r)) = m_nonce (snd (Role_issue_update r))"
proof -
  let ?r0 = "Role_new service_name role_name"
  have "m_last_update ?r0 \<le> m_nonce ?r0"
    by (simp add: Role_new_def)
  moreover have "unat (m_nonce ?r0) + length calls < 2 ^ 64"
    using assms by (simp add: Role_new_def)
  ultimately have "m_last_update (Role_run ?r0 calls) \<le> m_nonce (Role_run ?r0 calls)"
    using Role_run_inv [of ?r0 calls] by blast
  then show ?thesis
    by (auto simp: Let_def Role_issue_update_def)
qed

theorem Role_last_update_le_nonce_witness:
  "length [Add_member 5 1, Add_subscriber 6 2, Issue_update, Drop_tag 5] < 2 ^ 64 - 1 \<and>
   Role_issue_update (Role_run (Role_new ''demo'' ''sub'')
       [Add_member 5 1, Add_subscriber 6 2, Issue_update, Drop_tag 5]) =
     ([(2, \<lparr>upd_service_name = ''demo'', upd_role_name = ''sub'', upd_nonce = 4,
            upd_entries = []\<rparr>)],
      \<lparr>m_service_name = ''demo'', m_role_name = ''sub'', m_members = [],
       m_subscribers = [(6, 2)], m_nonce = 4, m_last_update = 4\<rparr>)"
proof -
  have len: "length [Add_member 5 1, Add_subscriber 6 2, Issue_update, Drop_tag 5] < 2 ^ 64 - 1"
    by simp
  have run: "Role_run (Role_new ''demo'' ''sub'')
               [Add_member 5 1, Add_subscriber 6 2, Issue_update, Drop_tag 5] =
             \<lparr>m_service_name = ''demo'', m_role_name = ''sub'', m_members = [],
              m_subscribers = [(6, 2)], m_nonce = 4, m_last_update = 3\<rparr>"
    by (simp add: Role_run_def Role_new_def add_member_def add_subscriber_def
          Role_drop_tag_def Role_issue_update_def std_map_contains_def std_map_erase_def)
  show ?thesis
    using len Role_last_update_le_nonce [OF len, of "''demo''" "''sub''"]
    unfolding run by (simp add: Let_def make_update_def)
qed

section \<open>Properties of the unary handlers\<close>

lemma unpack_request_message:
  "payload (msg event) = Message a \<Longrightarrow> unpack a = Some v \<Longrightarrow>
     unpack_request unpack event = Inr v"
  by (simp add: unpack_request_def)

text \<open>
  C7.  A \<^verbatim>\<open>RegisterWorkers\<close> request that contains a UCX worker address already in
  \<open>m_ucx_worker_addresses\<close> fails with a \<open>DuplicateUcxAddress\<close> error whose message
  is an address of the request that is already registered, and the server state (the
  address set, the instance registry and everything else) is returned unchanged.
\<close>

theorem unary_register_workers_duplicate:
  assumes "payload (msg event) = Message (Any_RegisterWorkersRequest req)"
    and "set (ucx_worker_addresses req) \<inter> m_ucx_worker_addresses s \<noteq> {}"
  shows "\<exists>a. a \<in> set (ucx_worker_addresses req) \<and> a \<in> m_ucx_worker_addresses s \<and>
             unary_register_workers event s =
               (Inl (Error_create_kind DuplicateUcxAddress a), s)"
proof -
  let ?dups = "filter (\<lambda>a. a \<in> m_ucx_worker_addresses s) (ucx_worker_addresses req)"
  have req: "unpack_request UnpackTo_RegisterWorkersRequest event = Inr req"
    using assms(1) by (simp add: unpack_request_message)
  from assms(2) have "set ?dups \<noteq> {}"
    by auto
  then obtain a rest where dups: "?dups = a # rest"
    by (cases ?dups) auto
  then have "a \<in> set ?dups"
    by simp
  then have "a \<in> set (ucx_worker_addresses req)" "a \<in> m_ucx_worker_addresses s"
    by simp_all
  moreover have "unary_register_workers event s =
      (Inl (Error_create_kind DuplicateUcxAddress a), s)"
    by (simp add: unary_register_workers_def req dups)
  ultimately show ?thesis
    by blast
qed

theorem unary_register_workers_duplicate_witness:
  "unary_register_workers (register_workers_event 12 2 [''ucx://a''])
     (snd (unary_register_workers
        (register_workers_event 11 1 [''ucx://a'', ''ucx://b'']) Server_new))
   = (Inl (Error_create_kind DuplicateUcxAddress ''ucx://a''),
      \<lparr>m_streams = [],
       m_instances =
         [(1, \<lparr>ci_instance_id = 1, ci_stream_id = 1, worker_address = ''ucx://a''\<rparr>),
          (2, \<lparr>ci_instance_id = 2, ci_stream_id = 1, worker_address = ''ucx://b''\<rparr>)],
       m_instances_by_stream = [(1, 1), (1, 2)],
       m_ucx_worker_addresses = {''ucx://a'', ''ucx://b''},
       m_subscription_services = [], next_instance_id = 3, next_service_id = 1\<rparr>)"
proof -
  let ?s1 = "\<lparr>m_streams = [],
       m_instances =
         [(1, \<lparr>ci_instance_id = 1, ci_stream_id = 1, worker_address = ''ucx://a''\<rparr>),
          (2, \<lparr>ci_instance_id = 2, ci_stream_id = 1, worker_address = ''ucx://b''\<rparr>)],
       m_instances_by_stream = [(1, 1), (1, 2)],
       m_ucx_worker_addresses = {''ucx://a'', ''ucx://b''},
       m_subscription_services = [], next_instance_id = 3, next_service_id = 1\<rparr>"
  have s1: "snd (unary_register_workers
        (register_workers_event 11 1 [''ucx://a'', ''ucx://b'']) Server_new) = ?s1"
    by (simp add: register_workers_event_def unary_register_workers_def unpack_request_def
          Server_new_def check_unique_repeated_field_def add_instance_def Let_def
          insert_commute)
  have "\<exists>a. a \<in> set (ucx_worker_addresses \<lparr>ucx_worker_addresses = [''ucx://a'']\<rparr>) \<and>
            a \<in> m_ucx_worker_addresses ?s1 \<and>
            unary_register_workers (register_workers_event 12 2 [''ucx://a'']) ?s1 =
              (Inl (Error_create_kind DuplicateUcxAddress a), ?s1)"
    by (rule unary_register_workers_duplicate)
       (simp_all add: register_workers_event_def)
  then show ?thesis
    unfolding s1 by auto
qed

lemma std_map_emplace_keys:
  "fst ` set (std_map_emplace k v m) = insert k (fst ` set m)"
  by (induction m) auto

lemma fold_add_role_keys:
  "fst ` set (m_roles (fold add_role names svc)) = set names \<union> fst ` set (m_roles svc)"
proof (induction names arbitrary: svc)
  case Nil
  then show ?case by simp
next
  case (Cons n names)
  have "fst ` set (m_roles (add_role n svc)) = insert n (fst ` set (m_roles svc))"
    by (simp add: add_role_def std_map_emplace_keys)
  with Cons.IH [of "add_role n svc"] show ?case
    by simp
qed

lemma SubscriptionService_new_roles:
  assumes "finite roles" "SubscriptionService_new tg name roles = Inr svc"
  shows "set (map fst (m_roles svc)) = roles"
proof -
  from assms(2) have "svc = fold add_role (sorted_list_of_set roles)
      \<lparr>tagged = Tagged_new tg, m_instance_tags = [], m_name = name, m_roles = []\<rparr>"
    by (simp add: SubscriptionService_new_def split: if_splits)
  then have "fst ` set (m_roles svc) = set (sorted_list_of_set roles)"
    by (simp add: fold_add_role_keys)
  with assms(1) show ?thesis
    by simp
qed

lemma compare_roles_has_role:
  "compare_roles svc roles \<longleftrightarrow> roles = {r. has_role svc r}"
  by (auto simp: compare_roles_def has_role_def std_map_contains_def)

text \<open>
  C8.  A \<^verbatim>\<open>CreateSubscriptionService\<close> request that names an existing service is
  accepted, with the server state (and so the set of service objects) unchanged, iff
  the set of requested role names equals the role names of the existing service;
  otherwise it fails with a \<open>ServiceMismatch\<close> error, again with the state
  unchanged.  The test is \<^verbatim>\<open>compare_roles\<close>, which holds iff the requested names are
  exactly the names for which \<^verbatim>\<open>has_role\<close> holds.
\<close>

theorem unary_create_subscription_service_existing:
  assumes "payload (msg event) = Message (Any_CreateSubscriptionServiceRequest req)"
    and "map_of (m_subscription_services s) (req_service_name req) = Some svc"
  shows "unary_create_subscription_service event s =
           (if set (req_roles req) = set (map fst (m_roles svc)) then (Inr Ack, s)
            else (Inl (Error_create_kind ServiceMismatch (req_service_name req)), s)) \<and>
         (set (req_roles req) = set (map fst (m_roles svc)) \<longleftrightarrow>
            compare_roles svc (set (req_roles req))) \<and>
         (compare_roles svc (set (req_roles req)) \<longleftrightarrow>
            set (req_roles req) = {r. has_role svc r})"
proof -
  have "unpack_request UnpackTo_CreateSubscriptionServiceRequest event = Inr req"
    using assms(1) by (simp add: unpack_request_message)
  then have "unary_create_subscription_service event s =
           (if compare_roles svc (set (req_roles req)) then (Inr Ack, s)
            else (Inl (Error_create_kind ServiceMismatch (req_service_name req)), s))"
    using assms(2) by (simp add: unary_create_subscription_service_def)
  then show ?thesis
    using compare_roles_has_role [of svc "set (req_roles req)"]
    by (simp add: compare_roles_def)
qed

theorem unary_create_subscription_service_existing_witness:
  "unary_create_subscription_service (create_service_event 22 2 ''x'' [''b'', ''a''])
     (snd (unary_create_subscription_service
        (create_service_event 21 1 ''x'' [''a'', ''b'']) Server_new))
   = (Inr Ack,
      snd (unary_create_subscription_service
        (create_service_event 21 1 ''x'' [''a'', ''b'']) Server_new)) \<and>
   unary_create_subscription_service (create_service_event 23 3 ''x'' [''a'', ''c''])
     (snd (unary_create_subscription_service
        (create_service_event 21 1 ''x'' [''a'', ''b'']) Server_new))
   = (Inl (Error_create_kind ServiceMismatch ''x''),
      snd (unary_create_subscription_service
        (create_service_event 21 1 ''x'' [''a'', ''b'']) Server_new))"
proof -
  let ?svc = "\<lparr>tagged = \<lparr>m_tag = 0x100000000, m_uid = 1\<rparr>, m_instance_tags = [],
       m_name = ''x'',
       m_roles =
         [(''a'', \<lparr>m_service_name = ''x'', m_role_name = ''a'', m_members = [],
                  m_subscribers = [], m_nonce = 1, m_last_update = 1\<rparr>),
          (''b'', \<lparr>m_service_name = ''x'', m_role_name = ''b'', m_members = [],
                  m_subscribers = [], m_nonce = 1, m_last_update = 1\<rparr>)]\<rparr>"
  let ?s1 = "\<lparr>m_streams = [], m_instances = [], m_instances_by_stream = [],
       m_ucx_worker_addresses = {}, m_subscription_services = [(''x'', ?svc)],
       next_instance_id = 1, next_service_id = 2\<rparr>"
  have s1: "snd (unary_create_subscription_service
        (create_service_event 21 1 ''x'' [''a'', ''b'']) Server_new) = ?s1"
    by (simp add: create_service_event_def unary_create_subscription_service_def
          unpack_request_def Server_new_def SubscriptionService_new_def
          sorted_list_of_set_sort_remdups add_role_def Role_new_def Tagged_new_def)
  have same: "unary_create_subscription_service
        (create_service_event 22 2 ''x'' [''b'', ''a'']) ?s1 = (Inr Ack, ?s1)"
    using unary_create_subscription_service_existing [of
        "create_service_event 22 2 ''x'' [''b'', ''a'']"
        "\<lparr>req_service_name = ''x'', req_roles = [''b'', ''a'']\<rparr>" ?s1 ?svc]
    by (simp add: create_service_event_def insert_commute)
  have other: "unary_create_subscription_service
        (create_service_event 23 3 ''x'' [''a'', ''c'']) ?s1 =
        (Inl (Error_create_kind ServiceMismatch ''x''), ?s1)"
    using unary_create_subscription_service_existing [of
        "create_service_event 23 3 ''x'' [''a'', ''c'']"
        "\<lparr>req_service_name = ''x'', req_roles = [''a'', ''c'']\<rparr>" ?s1 ?svc]
    by (simp add: create_service_event_def doubleton_eq_iff)
  show ?thesis
    unfolding s1 using same other by simp
qed

section \<open>Properties of the pipeline instance\<close>

lemma std_map_erase_keys:
  "fst ` set (std_map_erase k m) = fst ` set m - {k}"
  by (auto simp: std_map_erase_def)

lemma keys_map_update:
  "fst ` set (map (\<lambda>q. if fst q = a then (fst q, f (snd q)) else q) m) = fst ` set m"
  by (induction m) auto

lemma map_of_map_update:
  "map_of (map (\<lambda>q. if fst q = a then (fst q, f (snd q)) else q) m) a =
     map_option f (map_of m a)"
  by (induction m) auto

lemma map_of_contains:
  "std_map_contains a m \<longleftrightarrow> map_of m a \<noteq> None"
  by (simp add: std_map_contains_def map_of_eq_None_iff)

lemma m_segments_log [simp]: "m_segments (log_transition t p) = m_segments p"
  by (simp add: log_transition_def)

lemma m_segments_set_state:
  "m_segments (set_segment_state a st p) =
     map (\<lambda>q. if fst q = a then (fst q, (snd q)\<lparr>seg_state := st\<rparr>) else q) (m_segments p)"
  by (simp add: set_segment_state_def)

lemma segment_keys_set_state [simp]:
  "segment_keys (set_segment_state a st p) = segment_keys p"
  by (simp only: m_segments_set_state keys_map_update)

lemma map_of_set_state:
  "map_of (m_segments (set_segment_state a st p)) a =
     map_option (\<lambda>seg. seg\<lparr>seg_state := st\<rparr>) (map_of (m_segments p) a)"
  by (simp only: m_segments_set_state map_of_map_update)

lemma segment_keys_create:
  "segment_keys (create_segment a part p) = insert a (segment_keys p)"
  by (auto simp: create_segment_def std_map_emplace_keys std_map_contains_def)

lemma segment_keys_stage:
  "segment_keys (snd (stage_segments ts p)) = segment_keys p \<union> set (map tgt_address ts)"
proof (induction ts arbitrary: p)
  case Nil
  then show ?case by simp
next
  case (Cons t ts)
  show ?case
  proof (cases "std_map_contains (tgt_address t) (m_segments p)")
    case True
    then have "tgt_address t \<in> segment_keys p"
      by (simp add: std_map_contains_def)
    with True Cons.IH [of p] show ?thesis
      by auto
  next
    case False
    let ?p = "create_segment (tgt_address t) (tgt_partition_id t) p"
    from False have "snd (stage_segments (t # ts) p) = snd (stage_segments ts ?p)"
      by (simp add: split_beta)
    with Cons.IH [of ?p] show ?thesis
      by (simp add: segment_keys_create)
  qed
qed

lemma segment_keys_retire:
  "segment_keys (retire_segment a p) = segment_keys p - {a}"
proof (cases "std_map_contains a (m_segments p)")
  case True
  then obtain seg where seg: "map_of (m_segments p) a = Some seg"
    by (auto simp: map_of_contains)
  let ?p1 = "set_segment_state a SegmentStopping p"
  let ?p2 = "set_segment_state a SegmentJoined (log_transition (StopSegment a) ?p1)"
  have c1: "std_map_contains a (m_segments (log_transition (StopSegment a) ?p1))"
    using True by (simp add: std_map_contains_def)
  have j: "join_segment a (stop_segment a p) = log_transition (JoinSegment a) ?p2"
    using True c1 by (simp add: stop_segment_def join_segment_def)
  have "map_of (m_segments ?p2) a = Some (seg\<lparr>seg_state := SegmentJoined\<rparr>)"
    by (simp add: map_of_set_state seg)
  then have "remove_segment a (log_transition (JoinSegment a) ?p2) =
      log_transition (RemoveSegment a)
        ((log_transition (JoinSegment a) ?p2)\<lparr>m_segments :=
            std_map_erase a (m_segments (log_transition (JoinSegment a) ?p2))\<rparr>)"
    by (simp add: remove_segment_def)
  then show ?thesis
    unfolding retire_segment_def j
    by (simp add: std_map_erase_keys)
next
  case False
  then have "map_of (m_segments p) a = None" and "a \<notin> segment_keys p"
    by (simp_all add: std_map_contains_def map_of_eq_None_iff)
  with False show ?thesis
    by (simp add: retire_segment_def stop_segment_def join_segment_def remove_segment_def)
qed

lemma segment_keys_fold_retire:
  "segment_keys (fold retire_segment as p) = segment_keys p - set as"
  by (induction as arbitrary: p) (auto simp: segment_keys_retire)

lemma m_segments_get_manifold [simp]:
  "m_segments (get_manifold port p) = m_segments p"
  by (simp add: get_manifold_def)

lemma m_segments_start_manifold [simp]:
  "m_segments (start_manifold port p) = m_segments p"
  by (simp add: start_manifold_def)

lemma m_segments_fold_get_manifold [simp]:
  "m_segments (fold get_manifold ports p) = m_segments p"
  by (induction ports arbitrary: p) simp_all

lemma m_segments_fold_start_manifold [simp]:
  "m_segments (fold start_manifold ports p) = m_segments p"
  by (induction ports arbitrary: p) simp_all

lemma segment_keys_start [simp]:
  "segment_keys (start_segment a p) = segment_keys p"
  by (simp add: start_segment_def)

lemma segment_keys_fold_start [simp]:
  "segment_keys (fold (\<lambda>t. start_segment (tgt_address t)) ts p) = segment_keys p"
  by (induction ts arbitrary: p) simp_all

lemma segment_keys_update:
  "segment_keys (update target p) = set (map tgt_address target)"
proof -
  obtain staged p1 where st: "stage_segments target p = (staged, p1)"
    by (cases "stage_segments target p")
  then have k1: "segment_keys p1 = segment_keys p \<union> set (map tgt_address target)"
    using segment_keys_stage [of target p] by simp
  show ?thesis
    unfolding update_def st
    by (simp add: Let_def segment_keys_fold_retire k1) auto
qed

lemma stage_segments_present:
  "set (map tgt_address ts) \<subseteq> segment_keys p \<Longrightarrow> stage_segments ts p = ([], p)"
  by (induction ts) (auto simp: std_map_contains_def)

lemma update_converged:
  assumes "segment_keys p = set (map tgt_address target)"
  shows "update target p = p"
proof -
  have st: "stage_segments target p = ([], p)"
    using assms by (intro stage_segments_present) simp
  have "filter (\<lambda>a. a \<notin> set (map tgt_address target)) (map fst (m_segments p)) = []"
    using assms by (auto simp: filter_empty_conv)
  then show ?thesis
    unfolding update_def st by (simp add: Let_def)
qed

lemmas update_defs =
  update_def create_segment_def start_segment_def stop_segment_def join_segment_def
  remove_segment_def retire_segment_def get_manifold_def start_manifold_def
  set_segment_state_def log_transition_def std_map_contains_def std_map_erase_def

text \<open>
  Scenario S5 of the specification: from an empty instance, the target with the
  segments 10 and 11 on partition 0, both using port ``p'', creates the two segments
  and the manifold and then starts them; the target with segment 10 alone then stops,
  joins and removes segment 11.
\<close>

lemma update_scenario_S5:
  "update [\<lparr>tgt_address = 10, tgt_partition_id = 0, tgt_ports = [''p'']\<rparr>,
           \<lparr>tgt_address = 11, tgt_partition_id = 0, tgt_ports = [''p'']\<rparr>]
     \<lparr>m_instance_id = 1, m_segments = [], m_manifold_instances = [],
      m_joinable = False, transitions = []\<rparr> =
   \<lparr>m_instance_id = 1,
    m_segments =
      [(10, \<lparr>seg_partition_id = 0, seg_state = SegmentRunning\<rparr>),
       (11, \<lparr>seg_partition_id = 0, seg_state = SegmentRunning\<rparr>)],
    m_manifold_instances = [(''p'', ManifoldConnected)], m_joinable = False,
    transitions =
      [CreateSegment 10, CreateSegment 11, CreateManifold ''p'',
       StartManifold ''p'', StartSegment 10, StartSegment 11]\<rparr> \<and>
   update [\<lparr>tgt_address = 10, tgt_partition_id = 0, tgt_ports = [''p'']\<rparr>]
     \<lparr>m_instance_id = 1,
      m_segments =
        [(10, \<lparr>seg_partition_id = 0, seg_state = SegmentRunning\<rparr>),
         (11, \<lparr>seg_partition_id = 0, seg_state = SegmentRunning\<rparr>)],
      m_manifold_instances = [(''p'', ManifoldConnected)], m_joinable = False,
      transitions =
        [CreateSegment 10, CreateSegment 11, CreateManifold ''p'',
         StartManifold ''p'', StartSegment 10, StartSegment 11]\<rparr> =
   \<lparr>m_instance_id = 1,
    m_segments = [(10, \<lparr>seg_partition_id = 0, seg_state = SegmentRunning\<rparr>)],
    m_manifold_instances = [(''p'', ManifoldConnected)], m_joinable = False,
    transitions =
      [CreateSegment 10, CreateSegment 11, CreateManifold ''p'',
       StartManifold ''p'', StartSegment 10, StartSegment 11,
       StopSegment 11, JoinSegment 11, RemoveSegment 11]\<rparr>"
  by (simp add: update_defs Let_def)
text \<open>
  C9.  For every pipeline instance and every target state, a second \<^verbatim>\<open>update\<close> with
  the same target changes nothing: the segment map and the manifold map are those the
  first call left, and the log of transitions is the one the first call left, so the
  second call started and stopped nothing.
\<close>

theorem update_idempotent:
  "update target (update target p) = update target p \<and>
   m_segments (update target (update target p)) = m_segments (update target p) \<and>
   m_manifold_instances (update target (update target p)) =
     m_manifold_instances (update target p) \<and>
   transitions (update target (update target p)) = transitions (update target p)"
proof -
  have "update target (update target p) = update target p"
    by (rule update_converged) (rule segment_keys_update)
  then show ?thesis
    by simp
qed

theorem update_idempotent_witness:
  "transitions
     (update [\<lparr>tgt_address = 10, tgt_partition_id = 0, tgt_ports = [''p'']\<rparr>,
              \<lparr>tgt_address = 11, tgt_partition_id = 0, tgt_ports = [''p'']\<rparr>]
        (update [\<lparr>tgt_address = 10, tgt_partition_id = 0, tgt_ports = [''p'']\<rparr>,
                 \<lparr>tgt_address = 11, tgt_partition_id = 0, tgt_ports = [''p'']\<rparr>]
           \<lparr>m_instance_id = 1, m_segments = [], m_manifold_instances = [],
            m_joinable = False, transitions = []\<rparr>)) =
   [CreateSegment 10, CreateSegment 11, CreateManifold ''p'',
    StartManifold ''p'', StartSegment 10, StartSegment 11]"
  using update_idempotent [of
      "[\<lparr>tgt_address = 10, tgt_partition_id = 0, tgt_ports = [''p'']\<rparr>,
        \<lparr>tgt_address = 11, tgt_partition_id = 0, tgt_ports = [''p'']\<rparr>]"
      "\<lparr>m_instance_id = 1, m_segments = [], m_manifold_instances = [],
        m_joinable = False, transitions = []\<rparr>"]
    update_scenario_S5
  by simp

end
